theory Spec2Isabelle
  imports Main "HOL-Library.Sublist"
begin

section \<open>The gallery application of \<^verbatim>\<open>src/App.tsx\<close>\<close>

text \<open>
  \<^verbatim>\<open>App\<close> is one React component. Its nine \<^verbatim>\<open>useState\<close> slots are the fields of the
  record \<open>app\<close>; every handler is a function from the state at the time of the call to
  the state after it. What a handler does to the outside is recorded in three more
  fields: \<open>alerts\<close> holds the texts passed to \<^verbatim>\<open>alert\<close>, \<open>console_errors\<close> the calls
  of \<^verbatim>\<open>console.error\<close>, and \<open>requests\<close> the calls made to the backend, each in the
  order of the calls.

  An \<^verbatim>\<open>async\<close> handler is cut at its \<^verbatim>\<open>await\<close>: the part that runs at the call, and
  the part that runs once the awaited response has settled, which takes the outcome as
  its argument. \<^verbatim>\<open>fetchPosters\<close> and \<^verbatim>\<open>handleDelete\<close> await twice in a row
  (\<^verbatim>\<open>fetch\<close>, then \<^verbatim>\<open>response.json()\<close>) and touch no state in between, so the two
  are one settling step whose outcome is either the parsed body or a rejection of
  either promise.
\<close>

subsection \<open>Data\<close>

text \<open>
  Modelled from the spec: the type \<^verbatim>\<open>Poster\<close> is imported from
  \<^verbatim>\<open>./components/PosterCard\<close>, which is not among the sources; the fields are those
  of the poster record wire shape. \<^verbatim>\<open>App.tsx\<close> reads \<^verbatim>\<open>category\<close> and \<^verbatim>\<open>id\<close> only.
\<close>

record poster =
  poster_id :: string
  title :: string
  category :: string
  imageUrl :: string
  description :: string
  createdAt :: string

text \<open>The session as the handlers read it: \<^verbatim>\<open>session?.user?.email\<close>.\<close>

record user =
  email :: "string option"

record session =
  user :: "user option"

datatype request =
    AuthGetSession
  | AuthSubscribe
  | AuthSignOut
  | GetPosters
  | DeletePoster string

text \<open>
  The parsed body of a response: \<^verbatim>\<open>result.success\<close>, \<^verbatim>\<open>result.error\<close> and, for
  the collection, \<^verbatim>\<open>result.posters\<close>. The state slot is declared
  \<^verbatim>\<open>useState<Poster[]>\<close>, so \<open>result_posters\<close> is a list.
\<close>

record api_result =
  success :: bool
  error :: "string option"

record posters_result = api_result +
  result_posters :: "poster list"

datatype 'r outcome = Rejected | Resolved 'r

datatype detail = Reported "string option" | Caught

record app =
  posters :: "poster list"
  selectedPoster :: "poster option"
  isModalOpen :: bool
  isUploadDialogOpen :: bool
  isAuthModalOpen :: bool
  selectedCategory :: string
  isLoading :: bool
  userEmail :: "string option"
  isAdmin :: bool
  alerts :: "string list"
  console_errors :: "(string \<times> detail) list"
  requests :: "request list"

definition ADMIN_EMAILS :: "string list" where
  "ADMIN_EMAILS = [''dhakwanhidaya@gmail.com'', ''dhakwansidra26@gmail.com'']"

text \<open>The initial values of the \<^verbatim>\<open>useState\<close> calls, with nothing done to the outside yet.\<close>

definition init :: app where
  "init = \<lparr> posters = [], selectedPoster = None, isModalOpen = False,
            isUploadDialogOpen = False, isAuthModalOpen = False,
            selectedCategory = ''all'', isLoading = True, userEmail = None,
            isAdmin = False, alerts = [], console_errors = [], requests = [] \<rparr>"

subsection \<open>Session handlers\<close>

text \<open>\<^verbatim>\<open>session?.user?.email\<close>: absent as soon as one link of the chain is.\<close>

definition session_email :: "session option \<Rightarrow> string option" where
  "session_email s =
     (case s of None \<Rightarrow> None
      | Some ses \<Rightarrow> (case user ses of None \<Rightarrow> None | Some u \<Rightarrow> email u))"

text \<open>\<^verbatim>\<open>x || null\<close> on an optional string: the empty string is falsy.\<close>

definition or_null :: "string option \<Rightarrow> string option" where
  "or_null x = (case x of None \<Rightarrow> None | Some e \<Rightarrow> (if e = [] then None else Some e))"

text \<open>The body shared by both callbacks (lines 37-39 and 46-48).\<close>

definition getSession_then :: "session option \<Rightarrow> app \<Rightarrow> app" where
  "getSession_then s w =
     (let email = or_null (session_email s) in
      w\<lparr> userEmail := email,
         isAdmin := (case email of Some e \<Rightarrow> e \<in> set ADMIN_EMAILS | None \<Rightarrow> False) \<rparr>)"

definition onAuthStateChange :: "session option \<Rightarrow> app \<Rightarrow> app" where
  "onAuthStateChange s w =
     (let email = or_null (session_email s) in
      w\<lparr> userEmail := email,
         isAdmin := (case email of Some e \<Rightarrow> e \<in> set ADMIN_EMAILS | None \<Rightarrow> False) \<rparr>)"

definition handleSignOut :: "app \<Rightarrow> app" where
  "handleSignOut w = w\<lparr> requests := requests w @ [AuthSignOut] \<rparr>"

subsection \<open>Fetching the collection\<close>

definition fetchPosters :: "app \<Rightarrow> app" where
  "fetchPosters w = w\<lparr> isLoading := True, requests := requests w @ [GetPosters] \<rparr>"

fun fetchPosters_settled :: "posters_result outcome \<Rightarrow> app \<Rightarrow> app" where
  "fetchPosters_settled (Resolved result) w =
     (if success result
      then w\<lparr> posters := result_posters result, isLoading := False \<rparr>
      else w\<lparr> console_errors :=
                console_errors w @ [(''Failed to fetch posters:'', Reported (error result))],
              isLoading := False \<rparr>)"
| "fetchPosters_settled Rejected w =
     w\<lparr> console_errors := console_errors w @ [(''Error fetching posters:'', Caught)],
        isLoading := False \<rparr>"

subsection \<open>Deleting a poster\<close>

definition handleDelete :: "string \<Rightarrow> app \<Rightarrow> app" where
  "handleDelete posterId w =
     (if \<not> isAdmin w
      then w\<lparr> alerts := alerts w @ [''Only admins can delete posters''] \<rparr>
      else w\<lparr> requests := requests w @ [DeletePoster posterId] \<rparr>)"

fun handleDelete_settled :: "api_result outcome \<Rightarrow> app \<Rightarrow> app" where
  "handleDelete_settled (Resolved result) w =
     (if success result
      then fetchPosters w
      else w\<lparr> console_errors :=
                console_errors w @ [(''Failed to delete poster:'', Reported (error result))],
              alerts := alerts w @ [''Failed to delete poster''] \<rparr>)"
| "handleDelete_settled Rejected w =
     w\<lparr> console_errors := console_errors w @ [(''Error deleting poster:'', Caught)],
        alerts := alerts w @ [''Failed to delete poster''] \<rparr>"

subsection \<open>View state\<close>

definition handleAddPoster :: "app \<Rightarrow> app" where
  "handleAddPoster w =
     (if \<not> isAdmin w
      then w\<lparr> alerts := alerts w @
                [''Only admins can upload posters. Please sign in with an admin account.''],
              isAuthModalOpen := True \<rparr>
      else w\<lparr> isUploadDialogOpen := True \<rparr>)"

definition filteredPosters :: "app \<Rightarrow> poster list" where
  "filteredPosters w =
     (if selectedCategory w = ''all''
      then posters w
      else filter (\<lambda>poster. category poster = selectedCategory w) (posters w))"

definition handlePosterClick :: "poster \<Rightarrow> app \<Rightarrow> app" where
  "handlePosterClick p w = w\<lparr> selectedPoster := Some p, isModalOpen := True \<rparr>"

definition setSelectedCategory :: "string \<Rightarrow> app \<Rightarrow> app" where
  "setSelectedCategory c w = w\<lparr> selectedCategory := c \<rparr>"

definition PosterModal_onClose :: "app \<Rightarrow> app" where
  "PosterModal_onClose w = w\<lparr> isModalOpen := False \<rparr>"

definition UploadDialog_onClose :: "app \<Rightarrow> app" where
  "UploadDialog_onClose w = w\<lparr> isUploadDialogOpen := False \<rparr>"

definition UploadDialog_onUploadSuccess :: "app \<Rightarrow> app" where
  "UploadDialog_onUploadSuccess w = fetchPosters w"

definition AuthModal_onClose :: "app \<Rightarrow> app" where
  "AuthModal_onClose w = w\<lparr> isAuthModalOpen := False \<rparr>"

definition AuthModal_onAuthSuccess :: "app \<Rightarrow> app" where
  "AuthModal_onAuthSuccess w = fetchPosters (w\<lparr> isAuthModalOpen := False \<rparr>)"

text \<open>The \<^verbatim>\<open>Admin Login\<close> button (line 176).\<close>

definition adminLogin_onClick :: "app \<Rightarrow> app" where
  "adminLogin_onClick w = w\<lparr> isAuthModalOpen := True \<rparr>"

subsection \<open>Mounting and events\<close>

text \<open>
  The two effects with an empty dependency list run once, in the order written: the first
  asks for the session and subscribes, the second calls \<^verbatim>\<open>fetchPosters\<close>.
\<close>

definition mount :: app where
  "mount = fetchPosters (init\<lparr> requests := requests init @ [AuthGetSession, AuthSubscribe] \<rparr>)"

datatype event =
    GetSessionResolved "session option"
  | AuthStateChange "session option"
  | FetchPostersSettled "posters_result outcome"
  | DeleteClicked string
  | DeleteSettled "api_result outcome"
  | SignOutClicked
  | AddPosterClicked
  | CategorySelected string
  | PosterClicked poster
  | PosterModalClosed
  | UploadDialogClosed
  | UploadSucceeded
  | AuthModalClosed
  | AuthSucceeded
  | AdminLoginClicked

text \<open>
  One event of the running application. The card is handed
  \<^verbatim>\<open>isAdmin ? handleDelete : () => {}\<close> (line 225), and both buttons that call
  \<^verbatim>\<open>handleAddPoster\<close> are rendered for an admin only (lines 163 and 235): without the
  role a delete click runs the empty function and there is no button to click.
\<close>

fun step :: "event \<Rightarrow> app \<Rightarrow> app" where
  "step (GetSessionResolved s) w = getSession_then s w"
| "step (AuthStateChange s) w = onAuthStateChange s w"
| "step (FetchPostersSettled oc) w = fetchPosters_settled oc w"
| "step (DeleteClicked posterId) w = (if isAdmin w then handleDelete posterId w else w)"
| "step (DeleteSettled oc) w = handleDelete_settled oc w"
| "step SignOutClicked w = handleSignOut w"
| "step AddPosterClicked w = (if isAdmin w then handleAddPoster w else w)"
| "step (CategorySelected c) w = setSelectedCategory c w"
| "step (PosterClicked p) w = handlePosterClick p w"
| "step PosterModalClosed w = PosterModal_onClose w"
| "step UploadDialogClosed w = UploadDialog_onClose w"
| "step UploadSucceeded w = UploadDialog_onUploadSuccess w"
| "step AuthModalClosed w = AuthModal_onClose w"
| "step AuthSucceeded w = AuthModal_onAuthSuccess w"
| "step AdminLoginClicked w = adminLogin_onClick w"

fun run :: "event list \<Rightarrow> app \<Rightarrow> app" where
  "run [] w = w"
| "run (e # es) w = run es (step e w)"

subsection \<open>Outcomes and refreshes in flight\<close>

text \<open>
  A response counts as successful when both promises resolved and the body has a true
  \<^verbatim>\<open>success\<close>: the test \<^verbatim>\<open>if (result.success)\<close> of both handlers.
\<close>

fun succeeded :: "'a api_result_scheme outcome \<Rightarrow> bool" where
  "succeeded Rejected = False"
| "succeeded (Resolved result) = success result"

text \<open>
  Modelled from the spec: the upload request is issued inside
  \<^verbatim>\<open>./components/UploadDialog\<close>, which is not among the sources; \<^verbatim>\<open>App.tsx\<close> only
  hands it \<^verbatim>\<open>onClose\<close> and \<^verbatim>\<open>onUploadSuccess = fetchPosters\<close> (lines 253-257). After
  the spec's sections 4.3, 4.4 and 7: a successful upload closes the upload overlay and
  triggers the refresh; a failed one (reported or transport-level) is logged, surfaces a
  user-visible notice and does not refresh. The texts of the notice and of the log entry
  are not given, so they are parameters.
\<close>

fun UploadDialog_upload_settled :: "string \<Rightarrow> string \<Rightarrow> api_result outcome \<Rightarrow> app \<Rightarrow> app" where
  "UploadDialog_upload_settled notice label (Resolved result) w =
     (if success result
      then UploadDialog_onUploadSuccess (UploadDialog_onClose w)
      else w\<lparr> console_errors := console_errors w @ [(label, Reported (error result))],
              alerts := alerts w @ [notice] \<rparr>)"
| "UploadDialog_upload_settled notice label Rejected w =
     w\<lparr> console_errors := console_errors w @ [(label, Caught)],
        alerts := alerts w @ [notice] \<rparr>"

text \<open>
  The events whose handler calls \<^verbatim>\<open>fetchPosters\<close>: a delete that succeeded (line 103),
  \<^verbatim>\<open>onUploadSuccess\<close> (line 256) and \<^verbatim>\<open>onAuthSuccess\<close> (line 265).
\<close>

fun starts_refresh :: "event \<Rightarrow> bool" where
  "starts_refresh (DeleteSettled oc) = succeeded oc"
| "starts_refresh UploadSucceeded = True"
| "starts_refresh AuthSucceeded = True"
| "starts_refresh _ = False"

text \<open>
  The number of refreshes in flight after a run of events, from the number before it: a
  call of \<^verbatim>\<open>fetchPosters\<close> adds one, a settled response takes one away. A response
  with no refresh in flight cannot happen: \<open>None\<close>.
\<close>

fun in_flight :: "nat \<Rightarrow> event list \<Rightarrow> nat option" where
  "in_flight n [] = Some n"
| "in_flight n (FetchPostersSettled oc # es) =
     (if n = 0 then None else in_flight (n - 1) es)"
| "in_flight n (e # es) = in_flight (if starts_refresh e then n + 1 else n) es"

text \<open>
  A run is sequential when no refresh is started while another is in flight, and no
  response arrives without one.
\<close>

fun sequential :: "nat \<Rightarrow> event list \<Rightarrow> bool" where
  "sequential n [] = True"
| "sequential n (FetchPostersSettled oc # es) = (0 < n \<and> sequential (n - 1) es)"
| "sequential n (e # es) =
     (if starts_refresh e then n = 0 \<and> sequential 1 es else sequential n es)"

section \<open>Session-derived role\<close>

text \<open>
  C1. Whichever callback receives the session (the initial \<^verbatim>\<open>getSession\<close> or the
  subscription), the role it stores is: there is a session, it has a user, the user has
  an email, and that email is in the allowlist. So a session with an email has the role
  exactly when the email is in the allowlist, and a user without email, a session
  without user and no session at all do not have it. The first address of the allowlist
  gets the role, an address outside it does not.
\<close>

theorem isAdmin_is_email_in_allowlist:
  "isAdmin (getSession_then s w) =
     (\<exists>ses u e. s = Some ses \<and> user ses = Some u \<and> email u = Some e
        \<and> e \<in> set ADMIN_EMAILS)
   \<and> isAdmin (onAuthStateChange s w) =
     (\<exists>ses u e. s = Some ses \<and> user ses = Some u \<and> email u = Some e
        \<and> e \<in> set ADMIN_EMAILS)
   \<and> isAdmin (getSession_then (Some \<lparr> user = Some \<lparr> email = Some e \<rparr> \<rparr>) w) =
       (e \<in> set ADMIN_EMAILS)
   \<and> isAdmin (onAuthStateChange (Some \<lparr> user = Some \<lparr> email = Some e \<rparr> \<rparr>) w) =
       (e \<in> set ADMIN_EMAILS)
   \<and> \<not> isAdmin (getSession_then (Some \<lparr> user = Some \<lparr> email = None \<rparr> \<rparr>) w)
   \<and> \<not> isAdmin (onAuthStateChange (Some \<lparr> user = Some \<lparr> email = None \<rparr> \<rparr>) w)
   \<and> \<not> isAdmin (getSession_then (Some \<lparr> user = None \<rparr>) w)
   \<and> \<not> isAdmin (onAuthStateChange (Some \<lparr> user = None \<rparr>) w)
   \<and> \<not> isAdmin (getSession_then None w)
   \<and> \<not> isAdmin (onAuthStateChange None w)
   \<and> isAdmin (getSession_then
        (Some \<lparr> user = Some \<lparr> email = Some ''dhakwanhidaya@gmail.com'' \<rparr> \<rparr>) init)
   \<and> isAdmin (onAuthStateChange
        (Some \<lparr> user = Some \<lparr> email = Some ''dhakwanhidaya@gmail.com'' \<rparr> \<rparr>) init)
   \<and> \<not> isAdmin (getSession_then
        (Some \<lparr> user = Some \<lparr> email = Some ''visitor@example.com'' \<rparr> \<rparr>) init)
   \<and> \<not> isAdmin (onAuthStateChange
        (Some \<lparr> user = Some \<lparr> email = Some ''visitor@example.com'' \<rparr> \<rparr>) init)"
  by (auto simp: getSession_then_def onAuthStateChange_def Let_def session_email_def
        or_null_def ADMIN_EMAILS_def split: option.splits)

text \<open>
  C9. The allowlist holds exactly the two addresses, and a session is given the admin
  role exactly when it has a user whose email is equal, as a string, to one of them:
  each of the two gets the role, and an address that differs from the first only in the
  case of a letter does not.
\<close>

theorem allowlist_is_exactly_two_emails:
  "set ADMIN_EMAILS = {''dhakwanhidaya@gmail.com'', ''dhakwansidra26@gmail.com''}
   \<and> length ADMIN_EMAILS = 2
   \<and> isAdmin (getSession_then s w) =
       (\<exists>ses u. s = Some ses \<and> user ses = Some u
          \<and> (email u = Some ''dhakwanhidaya@gmail.com''
               \<or> email u = Some ''dhakwansidra26@gmail.com''))
   \<and> isAdmin (onAuthStateChange s w) =
       (\<exists>ses u. s = Some ses \<and> user ses = Some u
          \<and> (email u = Some ''dhakwanhidaya@gmail.com''
               \<or> email u = Some ''dhakwansidra26@gmail.com''))
   \<and> isAdmin (getSession_then (Some \<lparr> user = Some \<lparr> email = Some e \<rparr> \<rparr>) w) =
       (e = ''dhakwanhidaya@gmail.com'' \<or> e = ''dhakwansidra26@gmail.com'')
   \<and> isAdmin (onAuthStateChange (Some \<lparr> user = Some \<lparr> email = Some e \<rparr> \<rparr>) w) =
       (e = ''dhakwanhidaya@gmail.com'' \<or> e = ''dhakwansidra26@gmail.com'')
   \<and> isAdmin (onAuthStateChange
        (Some \<lparr> user = Some \<lparr> email = Some ''dhakwanhidaya@gmail.com'' \<rparr> \<rparr>) init)
   \<and> isAdmin (onAuthStateChange
        (Some \<lparr> user = Some \<lparr> email = Some ''dhakwansidra26@gmail.com'' \<rparr> \<rparr>) init)
   \<and> isAdmin (getSession_then
        (Some \<lparr> user = Some \<lparr> email = Some ''dhakwansidra26@gmail.com'' \<rparr> \<rparr>) init)
   \<and> \<not> isAdmin (onAuthStateChange
        (Some \<lparr> user = Some \<lparr> email = Some ''Dhakwanhidaya@gmail.com'' \<rparr> \<rparr>) init)
   \<and> \<not> isAdmin (getSession_then
        (Some \<lparr> user = Some \<lparr> email = Some ''Dhakwanhidaya@gmail.com'' \<rparr> \<rparr>) init)"
  by (auto simp: getSession_then_def onAuthStateChange_def Let_def session_email_def
        or_null_def ADMIN_EMAILS_def split: option.splits)

section \<open>The filtered list\<close>

lemma count_list_filter:
  "count_list (filter P xs) x = (if P x then count_list xs x else 0)"
  by (induction xs) auto

text \<open>
  C2. With any snapshot and any selected category \<open>c\<close> in the state, \<open>filteredPosters\<close>
  is the whole snapshot when \<open>c\<close> is \<open>all\<close>; otherwise it is the snapshot's posters of
  category \<open>c\<close>: a subsequence of the snapshot (so in its order) in which each poster of
  category \<open>c\<close> occurs as often as in the snapshot and no other poster occurs. It is a
  function of the state alone, so it follows a new category and a newly fetched
  snapshot at once.
\<close>

theorem filteredPosters_all_or_category:
  "(c = ''all'' \<longrightarrow>
      filteredPosters (w\<lparr> posters := snapshot, selectedCategory := c \<rparr>) = snapshot)
   \<and> (c \<noteq> ''all'' \<longrightarrow>
      filteredPosters (w\<lparr> posters := snapshot, selectedCategory := c \<rparr>) =
        filter (\<lambda>p. category p = c) snapshot
      \<and> subseq (filteredPosters (w\<lparr> posters := snapshot, selectedCategory := c \<rparr>)) snapshot
      \<and> (\<forall>p. count_list (filteredPosters (w\<lparr> posters := snapshot, selectedCategory := c \<rparr>)) p =
             (if category p = c then count_list snapshot p else 0)))
   \<and> filteredPosters (setSelectedCategory c w) =
       filteredPosters (w\<lparr> posters := posters w, selectedCategory := c \<rparr>)
   \<and> (success r \<longrightarrow>
       filteredPosters (fetchPosters_settled (Resolved r) w) =
         filteredPosters (w\<lparr> posters := result_posters r,
                             selectedCategory := selectedCategory w \<rparr>))"
  by (simp add: filteredPosters_def setSelectedCategory_def count_list_filter)

theorem filteredPosters_all_or_category_witness:
  "''Vintage'' \<noteq> ''all''
   \<and> filteredPosters (init\<lparr> posters :=
        [\<lparr> poster_id = ''p1'', title = ''a'', category = ''Vintage'', imageUrl = ''u'',
            description = ''d'', createdAt = ''t'' \<rparr>,
         \<lparr> poster_id = ''p2'', title = ''b'', category = ''Abstract'', imageUrl = ''u'',
            description = ''d'', createdAt = ''t'' \<rparr>,
         \<lparr> poster_id = ''p3'', title = ''c'', category = ''Vintage'', imageUrl = ''u'',
            description = ''d'', createdAt = ''t'' \<rparr>],
        selectedCategory := ''Vintage'' \<rparr>) =
        [\<lparr> poster_id = ''p1'', title = ''a'', category = ''Vintage'', imageUrl = ''u'',
            description = ''d'', createdAt = ''t'' \<rparr>,
         \<lparr> poster_id = ''p3'', title = ''c'', category = ''Vintage'', imageUrl = ''u'',
            description = ''d'', createdAt = ''t'' \<rparr>]
   \<and> filteredPosters (init\<lparr> posters :=
        [\<lparr> poster_id = ''p1'', title = ''a'', category = ''Vintage'', imageUrl = ''u'',
            description = ''d'', createdAt = ''t'' \<rparr>],
        selectedCategory := ''all'' \<rparr>) =
        [\<lparr> poster_id = ''p1'', title = ''a'', category = ''Vintage'', imageUrl = ''u'',
            description = ''d'', createdAt = ''t'' \<rparr>]
   \<and> filteredPosters (fetchPosters_settled
        (Resolved \<lparr> success = True, error = None, result_posters =
           [\<lparr> poster_id = ''p2'', title = ''b'', category = ''Abstract'', imageUrl = ''u'',
               description = ''d'', createdAt = ''t'' \<rparr>] \<rparr>) init) =
        [\<lparr> poster_id = ''p2'', title = ''b'', category = ''Abstract'', imageUrl = ''u'',
            description = ''d'', createdAt = ''t'' \<rparr>]"
  using
    filteredPosters_all_or_category [where c = "''Vintage''" and w = init
      and snapshot = "[\<lparr> poster_id = ''p1'', title = ''a'', category = ''Vintage'', imageUrl = ''u'',
            description = ''d'', createdAt = ''t'' \<rparr>,
         \<lparr> poster_id = ''p2'', title = ''b'', category = ''Abstract'', imageUrl = ''u'',
            description = ''d'', createdAt = ''t'' \<rparr>,
         \<lparr> poster_id = ''p3'', title = ''c'', category = ''Vintage'', imageUrl = ''u'',
            description = ''d'', createdAt = ''t'' \<rparr>]"
      and r = "\<lparr> success = True, error = None, result_posters =
           [\<lparr> poster_id = ''p2'', title = ''b'', category = ''Abstract'', imageUrl = ''u'',
               description = ''d'', createdAt = ''t'' \<rparr>] \<rparr>"]
    filteredPosters_all_or_category [where c = "''all''" and w = init
      and snapshot = "[\<lparr> poster_id = ''p1'', title = ''a'', category = ''Vintage'', imageUrl = ''u'',
            description = ''d'', createdAt = ''t'' \<rparr>]"]
  by (simp add: init_def filteredPosters_def)

section \<open>Guards of the mutations\<close>

text \<open>
  C3. Called while \<open>isAdmin\<close> is false, \<open>handleDelete\<close> ends at once: it shows the notice
  that only admins can delete, makes no request and leaves the snapshot, and every other
  part of the state, as it was.
\<close>

theorem handleDelete_not_admin:
  assumes "\<not> isAdmin w"
  shows "alerts (handleDelete posterId w) = alerts w @ [''Only admins can delete posters'']
         \<and> requests (handleDelete posterId w) = requests w
         \<and> posters (handleDelete posterId w) = posters w
         \<and> handleDelete posterId w =
             w\<lparr> alerts := alerts w @ [''Only admins can delete posters''] \<rparr>"
  using assms by (simp add: handleDelete_def)

theorem handleDelete_not_admin_witness:
  "\<not> isAdmin mount
   \<and> alerts (handleDelete ''p1'' mount) = [''Only admins can delete posters'']
   \<and> requests (handleDelete ''p1'' mount) = [AuthGetSession, AuthSubscribe, GetPosters]
   \<and> posters (handleDelete ''p1'' mount) = []"
proof -
  have h: "\<not> isAdmin mount"
    by (simp add: mount_def fetchPosters_def init_def)
  show ?thesis
    using h handleDelete_not_admin [OF h, of "''p1''"]
    by (simp add: mount_def fetchPosters_def init_def)
qed

text \<open>
  C8. \<open>handleAddPoster\<close> has two outcomes, selected by \<open>isAdmin\<close>. Without the role it
  shows the notice and opens the auth overlay, and the upload overlay is left as it was
  (closed stays closed). With the role it opens the upload overlay, shows no notice and
  leaves the auth overlay as it was.
\<close>

theorem handleAddPoster_one_outcome:
  "(\<not> isAdmin w \<longrightarrow>
      alerts (handleAddPoster w) = alerts w @
        [''Only admins can upload posters. Please sign in with an admin account.'']
      \<and> isAuthModalOpen (handleAddPoster w)
      \<and> isUploadDialogOpen (handleAddPoster w) = isUploadDialogOpen w)
   \<and> (isAdmin w \<longrightarrow>
      isUploadDialogOpen (handleAddPoster w)
      \<and> alerts (handleAddPoster w) = alerts w
      \<and> isAuthModalOpen (handleAddPoster w) = isAuthModalOpen w)"
  by (simp add: handleAddPoster_def)

theorem handleAddPoster_one_outcome_witness:
  "\<not> isAdmin init
   \<and> alerts (handleAddPoster init) =
       [''Only admins can upload posters. Please sign in with an admin account.'']
   \<and> isAuthModalOpen (handleAddPoster init)
   \<and> \<not> isUploadDialogOpen (handleAddPoster init)
   \<and> isAdmin (init\<lparr> isAdmin := True \<rparr>)
   \<and> isUploadDialogOpen (handleAddPoster (init\<lparr> isAdmin := True \<rparr>))
   \<and> alerts (handleAddPoster (init\<lparr> isAdmin := True \<rparr>)) = []
   \<and> \<not> isAuthModalOpen (handleAddPoster (init\<lparr> isAdmin := True \<rparr>))"
  using handleAddPoster_one_outcome [of init]
        handleAddPoster_one_outcome [of "init\<lparr> isAdmin := True \<rparr>"]
  by (simp add: init_def)

section \<open>Responses\<close>

text \<open>
  C6. When the response to a refresh is a failure, reported by the server or an error of
  the transport, the settling step adds one entry to the error log, clears the loading
  flag and changes nothing else: the snapshot is the one before, no notice is shown and no
  overlay opens.
\<close>

theorem fetchPosters_failure_keeps_snapshot:
  assumes "\<not> succeeded oc"
  shows "posters (fetchPosters_settled oc w) = posters w
         \<and> alerts (fetchPosters_settled oc w) = alerts w
         \<and> length (console_errors (fetchPosters_settled oc w)) =
             length (console_errors w) + 1
         \<and> (\<exists>entry. fetchPosters_settled oc w =
               w\<lparr> console_errors := console_errors w @ [entry], isLoading := False \<rparr>)"
  using assms by (cases oc) auto

theorem fetchPosters_failure_keeps_snapshot_witness:
  "\<not> succeeded (Resolved \<lparr> success = False, error = Some ''down'', result_posters = [] \<rparr>)
   \<and> \<not> succeeded (Rejected :: posters_result outcome)
   \<and> posters (fetchPosters_settled
        (Resolved \<lparr> success = False, error = Some ''down'', result_posters = [] \<rparr>) mount) = []
   \<and> alerts (fetchPosters_settled
        (Resolved \<lparr> success = False, error = Some ''down'', result_posters = [] \<rparr>) mount) = []
   \<and> posters (fetchPosters_settled Rejected mount) = []
   \<and> alerts (fetchPosters_settled Rejected mount) = []"
proof -
  have h1: "\<not> succeeded (Resolved \<lparr> success = False, error = Some ''down'', result_posters = [] \<rparr>)"
    by simp
  have h2: "\<not> succeeded (Rejected :: posters_result outcome)"
    by simp
  show ?thesis
    using h1 h2
      fetchPosters_failure_keeps_snapshot [OF h1, of mount]
      fetchPosters_failure_keeps_snapshot [OF h2, of mount]
    by (simp add: mount_def fetchPosters_def init_def)
qed

text \<open>
  C5. A delete response that succeeded is followed by one call of \<open>fetchPosters\<close>: one
  more request for the collection, and no notice. A delete response that failed, reported
  or at the transport, is followed by none: the requests are as before and the notice
  that the delete failed is shown. The same holds of the upload, whose notice text is the
  dialog's own.
\<close>

theorem mutation_response_refreshes_on_success_only:
  "(succeeded oc \<longrightarrow>
      requests (handleDelete_settled oc w) = requests w @ [GetPosters]
      \<and> alerts (handleDelete_settled oc w) = alerts w)
   \<and> (\<not> succeeded oc \<longrightarrow>
      requests (handleDelete_settled oc w) = requests w
      \<and> alerts (handleDelete_settled oc w) = alerts w @ [''Failed to delete poster''])
   \<and> (succeeded oc \<longrightarrow>
      requests (UploadDialog_upload_settled notice label oc w) = requests w @ [GetPosters]
      \<and> alerts (UploadDialog_upload_settled notice label oc w) = alerts w)
   \<and> (\<not> succeeded oc \<longrightarrow>
      requests (UploadDialog_upload_settled notice label oc w) = requests w
      \<and> alerts (UploadDialog_upload_settled notice label oc w) = alerts w @ [notice])"
  by (cases oc)
     (simp_all add: fetchPosters_def UploadDialog_onUploadSuccess_def UploadDialog_onClose_def)

theorem mutation_response_refreshes_on_success_only_witness:
  "succeeded (Resolved \<lparr> success = True, error = None \<rparr>)
   \<and> requests (handleDelete_settled (Resolved \<lparr> success = True, error = None \<rparr>) init) =
       [GetPosters]
   \<and> alerts (handleDelete_settled (Resolved \<lparr> success = True, error = None \<rparr>) init) = []
   \<and> requests (UploadDialog_upload_settled ''Upload failed'' ''upload''
       (Resolved \<lparr> success = True, error = None \<rparr>) init) = [GetPosters]
   \<and> \<not> succeeded (Resolved \<lparr> success = False, error = Some ''no'' \<rparr>)
   \<and> requests (handleDelete_settled (Resolved \<lparr> success = False, error = Some ''no'' \<rparr>) init) = []
   \<and> alerts (handleDelete_settled (Resolved \<lparr> success = False, error = Some ''no'' \<rparr>) init) =
       [''Failed to delete poster'']
   \<and> \<not> succeeded (Rejected :: api_result outcome)
   \<and> requests (handleDelete_settled Rejected init) = []
   \<and> alerts (handleDelete_settled Rejected init) = [''Failed to delete poster'']
   \<and> requests (UploadDialog_upload_settled ''Upload failed'' ''upload'' Rejected init) = []
   \<and> alerts (UploadDialog_upload_settled ''Upload failed'' ''upload'' Rejected init) =
       [''Upload failed'']"
  using
    mutation_response_refreshes_on_success_only
      [where oc = "Resolved \<lparr> success = True, error = None \<rparr>" and w = init
         and notice = "''Upload failed''" and label = "''upload''"]
    mutation_response_refreshes_on_success_only
      [where oc = "Resolved \<lparr> success = False, error = Some ''no'' \<rparr>" and w = init
         and notice = "''Upload failed''" and label = "''upload''"]
    mutation_response_refreshes_on_success_only
      [where oc = "Rejected" and w = init
         and notice = "''Upload failed''" and label = "''upload''"]
  by (simp add: init_def)

section \<open>Selection and the detail overlay\<close>

lemma step_keeps_selection_when_open:
  assumes "isModalOpen w \<longrightarrow> selectedPoster w \<noteq> None"
  shows "isModalOpen (step e w) \<longrightarrow> selectedPoster (step e w) \<noteq> None"
proof (cases e)
  case (FetchPostersSettled oc)
  with assms show ?thesis by (cases oc) auto
next
  case (DeleteSettled oc)
  with assms show ?thesis by (cases oc) (auto simp: fetchPosters_def)
qed (use assms in \<open>auto simp: getSession_then_def onAuthStateChange_def Let_def
      handleDelete_def handleSignOut_def handleAddPoster_def setSelectedCategory_def
      handlePosterClick_def PosterModal_onClose_def UploadDialog_onClose_def
      UploadDialog_onUploadSuccess_def AuthModal_onClose_def AuthModal_onAuthSuccess_def
      adminLogin_onClick_def fetchPosters_def\<close>)

lemma run_keeps_selection_when_open:
  "isModalOpen w \<longrightarrow> selectedPoster w \<noteq> None \<Longrightarrow>
   isModalOpen (run es w) \<longrightarrow> selectedPoster (run es w) \<noteq> None"
proof (induction es arbitrary: w)
  case Nil
  then show ?case by simp
next
  case (Cons e es)
  from Cons.prems have "isModalOpen (step e w) \<longrightarrow> selectedPoster (step e w) \<noteq> None"
    by (rule step_keeps_selection_when_open)
  then show ?case using Cons.IH by simp
qed

text \<open>
  C7, as the code has it. \<open>handlePosterClick\<close> stores the poster and opens the detail
  overlay in one step, and in every state reached from the mounted application the
  overlay is open only with a poster selected. Closing the overlay keeps the selection.
\<close>

theorem detail_open_only_with_selection:
  "selectedPoster (handlePosterClick p w) = Some p
   \<and> isModalOpen (handlePosterClick p w)
   \<and> (isModalOpen (run es mount) \<longrightarrow> selectedPoster (run es mount) \<noteq> None)
   \<and> selectedPoster (PosterModal_onClose w) = selectedPoster w
   \<and> \<not> isModalOpen (PosterModal_onClose w)"
proof -
  have "isModalOpen mount \<longrightarrow> selectedPoster mount \<noteq> None"
    by (simp add: mount_def fetchPosters_def init_def)
  then have "isModalOpen (run es mount) \<longrightarrow> selectedPoster (run es mount) \<noteq> None"
    by (rule run_keeps_selection_when_open)
  then show ?thesis
    by (simp add: handlePosterClick_def PosterModal_onClose_def)
qed

theorem detail_open_only_with_selection_witness:
  "isModalOpen (run [FetchPostersSettled (Resolved \<lparr> success = True, error = None,
        result_posters = [\<lparr> poster_id = ''p1'', title = ''a'', category = ''Vintage'',
        imageUrl = ''u'', description = ''d'', createdAt = ''t'' \<rparr>] \<rparr>),
      PosterClicked \<lparr> poster_id = ''p1'', title = ''a'', category = ''Vintage'',
        imageUrl = ''u'', description = ''d'', createdAt = ''t'' \<rparr>] mount)
   \<and> selectedPoster (run [FetchPostersSettled (Resolved \<lparr> success = True, error = None,
        result_posters = [\<lparr> poster_id = ''p1'', title = ''a'', category = ''Vintage'',
        imageUrl = ''u'', description = ''d'', createdAt = ''t'' \<rparr>] \<rparr>),
      PosterClicked \<lparr> poster_id = ''p1'', title = ''a'', category = ''Vintage'',
        imageUrl = ''u'', description = ''d'', createdAt = ''t'' \<rparr>] mount) \<noteq> None"
proof -
  have h: "isModalOpen (run [FetchPostersSettled (Resolved \<lparr> success = True, error = None,
        result_posters = [\<lparr> poster_id = ''p1'', title = ''a'', category = ''Vintage'',
        imageUrl = ''u'', description = ''d'', createdAt = ''t'' \<rparr>] \<rparr>),
      PosterClicked \<lparr> poster_id = ''p1'', title = ''a'', category = ''Vintage'',
        imageUrl = ''u'', description = ''d'', createdAt = ''t'' \<rparr>] mount)"
    by (simp add: handlePosterClick_def)
  show ?thesis
    using h detail_open_only_with_selection
      [where es = "[FetchPostersSettled (Resolved \<lparr> success = True, error = None,
        result_posters = [\<lparr> poster_id = ''p1'', title = ''a'', category = ''Vintage'',
        imageUrl = ''u'', description = ''d'', createdAt = ''t'' \<rparr>] \<rparr>),
      PosterClicked \<lparr> poster_id = ''p1'', title = ''a'', category = ''Vintage'',
        imageUrl = ''u'', description = ''d'', createdAt = ''t'' \<rparr>]"]
    by blast
qed

text \<open>
  C7, as the claim states it, fails: once the collection has been fetched, a click on a
  poster followed by the closing of the overlay leaves that poster selected while the
  overlay is closed.
\<close>

theorem selection_without_open_detail:
  "\<not> (isModalOpen (run [FetchPostersSettled (Resolved \<lparr> success = True, error = None,
        result_posters = [\<lparr> poster_id = ''p1'', title = ''a'', category = ''Vintage'',
        imageUrl = ''u'', description = ''d'', createdAt = ''t'' \<rparr>] \<rparr>),
      PosterClicked \<lparr> poster_id = ''p1'', title = ''a'', category = ''Vintage'',
        imageUrl = ''u'', description = ''d'', createdAt = ''t'' \<rparr>,
      PosterModalClosed] mount)
      \<longleftrightarrow> selectedPoster (run [FetchPostersSettled (Resolved \<lparr> success = True, error = None,
        result_posters = [\<lparr> poster_id = ''p1'', title = ''a'', category = ''Vintage'',
        imageUrl = ''u'', description = ''d'', createdAt = ''t'' \<rparr>] \<rparr>),
      PosterClicked \<lparr> poster_id = ''p1'', title = ''a'', category = ''Vintage'',
        imageUrl = ''u'', description = ''d'', createdAt = ''t'' \<rparr>,
      PosterModalClosed] mount) \<noteq> None)"
  by (simp add: handlePosterClick_def PosterModal_onClose_def)

section \<open>The loading flag\<close>

lemma isLoading_step:
  "isLoading (step e w) =
     (case e of FetchPostersSettled oc \<Rightarrow> False
      | _ \<Rightarrow> (if starts_refresh e then True else isLoading w))"
proof (cases e)
  case (FetchPostersSettled oc)
  show ?thesis unfolding FetchPostersSettled by (cases oc) auto
next
  case (DeleteSettled oc)
  show ?thesis unfolding DeleteSettled by (cases oc) (auto simp: fetchPosters_def)
qed (auto simp: getSession_then_def onAuthStateChange_def Let_def
      handleDelete_def handleSignOut_def handleAddPoster_def setSelectedCategory_def
      handlePosterClick_def PosterModal_onClose_def UploadDialog_onClose_def
      UploadDialog_onUploadSuccess_def AuthModal_onClose_def AuthModal_onAuthSuccess_def
      adminLogin_onClick_def fetchPosters_def)

text \<open>The count of the trace agrees with the requests the handlers make.\<close>

lemma starts_refresh_is_request:
  "length (filter (\<lambda>r. r = GetPosters) (requests (step e w))) =
   length (filter (\<lambda>r. r = GetPosters) (requests w)) + (if starts_refresh e then 1 else 0)"
proof (cases e)
  case (FetchPostersSettled oc)
  show ?thesis unfolding FetchPostersSettled by (cases oc) auto
next
  case (DeleteSettled oc)
  show ?thesis unfolding DeleteSettled by (cases oc) (auto simp: fetchPosters_def)
qed (auto simp: getSession_then_def onAuthStateChange_def Let_def
      handleDelete_def handleSignOut_def handleAddPoster_def setSelectedCategory_def
      handlePosterClick_def PosterModal_onClose_def UploadDialog_onClose_def
      UploadDialog_onUploadSuccess_def AuthModal_onClose_def AuthModal_onAuthSuccess_def
      adminLogin_onClick_def fetchPosters_def)

lemma sequential_isLoading:
  "n \<le> 1 \<Longrightarrow> sequential n es \<Longrightarrow> isLoading w = (0 < n) \<Longrightarrow>
   \<exists>m. in_flight n es = Some m \<and> m \<le> 1 \<and> isLoading (run es w) = (0 < m)"
proof (induction es arbitrary: n w)
  case Nil
  then show ?case by simp
next
  case (Cons e es)
  show ?case
  proof (cases e)
    case (FetchPostersSettled oc)
    with Cons.prems have n: "n = 1" and s: "sequential 0 es"
      by auto
    have "isLoading (step e w) = (0 < (0::nat))"
      using isLoading_step [of e w] FetchPostersSettled by simp
    from Cons.IH [OF _ s this] show ?thesis
      using FetchPostersSettled n by simp
  next
    case other: (DeleteSettled oc)
    show ?thesis
    proof (cases "succeeded oc")
      case True
      with Cons.prems other have n: "n = 0" and s: "sequential 1 es"
        by auto
      have "isLoading (step e w) = (0 < (1::nat))"
        using isLoading_step [of e w] other True by simp
      from Cons.IH [OF _ s this] show ?thesis
        using other True n by simp
    next
      case False
      with Cons.prems other have s: "sequential n es"
        by auto
      have "isLoading (step e w) = (0 < n)"
        using isLoading_step [of e w] other False Cons.prems(3) by simp
      from Cons.IH [OF Cons.prems(1) s this] show ?thesis
        using other False by simp
    qed
  next
    case UploadSucceeded
    with Cons.prems have n: "n = 0" and s: "sequential 1 es"
      by auto
    have "isLoading (step e w) = (0 < (1::nat))"
      using isLoading_step [of e w] UploadSucceeded by simp
    from Cons.IH [OF _ s this] show ?thesis
      using UploadSucceeded n by simp
  next
    case AuthSucceeded
    with Cons.prems have n: "n = 0" and s: "sequential 1 es"
      by auto
    have "isLoading (step e w) = (0 < (1::nat))"
      using isLoading_step [of e w] AuthSucceeded by simp
    from Cons.IH [OF _ s this] show ?thesis
      using AuthSucceeded n by simp
  qed (use Cons.prems Cons.IH [of n "step e w"] isLoading_step [of e w] in simp_all)
qed

lemma isLoading_needs_in_flight:
  "in_flight n es = Some m \<Longrightarrow> isLoading w \<longrightarrow> 0 < n \<Longrightarrow>
   isLoading (run es w) \<longrightarrow> 0 < m"
proof (induction es arbitrary: n w)
  case Nil
  then show ?case by simp
next
  case (Cons e es)
  show ?case
  proof (cases e)
    case (FetchPostersSettled oc)
    with Cons.prems have f: "in_flight (n - 1) es = Some m"
      by (simp split: if_splits)
    have "isLoading (step e w) \<longrightarrow> 0 < n - 1"
      using isLoading_step [of e w] FetchPostersSettled by simp
    from Cons.IH [OF f this] show ?thesis
      using FetchPostersSettled by simp
  next
    case other: (DeleteSettled oc)
    from Cons.prems other
    have f: "in_flight (if succeeded oc then n + 1 else n) es = Some m"
      by simp
    have "isLoading (step e w) \<longrightarrow> 0 < (if succeeded oc then n + 1 else n)"
      using isLoading_step [of e w] other Cons.prems(2) by simp
    from Cons.IH [OF f this] show ?thesis
      using other by simp
  next
    case UploadSucceeded
    with Cons.prems have f: "in_flight (n + 1) es = Some m"
      by simp
    have "isLoading (step e w) \<longrightarrow> 0 < n + 1"
      by simp
    from Cons.IH [OF f this] show ?thesis
      using UploadSucceeded by simp
  next
    case AuthSucceeded
    with Cons.prems have f: "in_flight (n + 1) es = Some m"
      by simp
    have "isLoading (step e w) \<longrightarrow> 0 < n + 1"
      by simp
    from Cons.IH [OF f this] show ?thesis
      using AuthSucceeded by simp
  qed (use Cons.prems Cons.IH [of n "step e w"] isLoading_step [of e w] in simp_all)
qed

text \<open>
  C4, as the code has it. \<open>fetchPosters\<close> sets the loading flag, and the settling of its
  response clears it whatever the outcome. From the mounted application on, along every
  run, the flag is true only while a refresh is in flight; and along every run in which
  no refresh is started while another is in flight, the flag is true exactly while a
  refresh is in flight.
\<close>

theorem isLoading_while_refresh_in_flight:
  "isLoading (fetchPosters w)
   \<and> \<not> isLoading (fetchPosters_settled oc w)
   \<and> (in_flight 1 es = Some m \<longrightarrow> isLoading (run es mount) \<longrightarrow> 0 < m)
   \<and> (sequential 1 es \<longrightarrow>
        (\<exists>k. in_flight 1 es = Some k \<and> isLoading (run es mount) = (0 < k)))"
proof -
  have "isLoading mount = (0 < (1::nat))"
    by (simp add: mount_def fetchPosters_def)
  then have "sequential 1 es \<Longrightarrow>
      \<exists>k. in_flight 1 es = Some k \<and> k \<le> 1 \<and> isLoading (run es mount) = (0 < k)"
    using sequential_isLoading [of 1 es mount] by simp
  moreover have "\<not> isLoading (fetchPosters_settled oc w)"
    by (cases oc) auto
  moreover have "in_flight 1 es = Some m \<Longrightarrow> isLoading (run es mount) \<longrightarrow> 0 < m"
    using isLoading_needs_in_flight [of 1 es m mount] by simp
  ultimately show ?thesis
    by (auto simp: fetchPosters_def)
qed

theorem isLoading_while_refresh_in_flight_witness:
  "in_flight 1 [AdminLoginClicked, AuthSucceeded] = Some 2
   \<and> isLoading (run [AdminLoginClicked, AuthSucceeded] mount)
   \<and> (0::nat) < 2
   \<and> sequential 1 [FetchPostersSettled Rejected, AdminLoginClicked, AuthSucceeded]
   \<and> in_flight 1 [FetchPostersSettled Rejected, AdminLoginClicked, AuthSucceeded] = Some 1
   \<and> isLoading (run [FetchPostersSettled Rejected, AdminLoginClicked, AuthSucceeded] mount)
   \<and> sequential 1 [FetchPostersSettled Rejected]
   \<and> in_flight 1 [FetchPostersSettled Rejected] = Some 0
   \<and> \<not> isLoading (run [FetchPostersSettled Rejected] mount)"
proof -
  have h0: "in_flight 1 [AdminLoginClicked, AuthSucceeded] = Some 2"
    by simp
  have h0': "isLoading (run [AdminLoginClicked, AuthSucceeded] mount)"
    by (simp add: AuthModal_onAuthSuccess_def fetchPosters_def)
  have h1: "sequential 1 [FetchPostersSettled Rejected, AdminLoginClicked, AuthSucceeded]"
    by simp
  have h2: "sequential 1 [FetchPostersSettled Rejected]"
    by simp
  show ?thesis
    using h0 h0' h1 h2
      isLoading_while_refresh_in_flight
        [where es = "[AdminLoginClicked, AuthSucceeded]" and m = 2]
      isLoading_while_refresh_in_flight
        [where es = "[FetchPostersSettled Rejected, AdminLoginClicked, AuthSucceeded]"]
      isLoading_while_refresh_in_flight [where es = "[FetchPostersSettled Rejected]"]
    by simp
qed

text \<open>
  C4, as the claim states it, fails twice. Before anything has happened no refresh is in
  flight and the flag is true. And when a second refresh starts before the first has
  settled, the first response clears the flag while the second refresh is in flight.
\<close>

theorem isLoading_not_in_flight_flag:
  "\<not> (isLoading (run [] init) = (in_flight 0 [] \<noteq> Some 0))
   \<and> \<not> (isLoading (run [AuthSucceeded, FetchPostersSettled Rejected] mount) =
          (in_flight 1 [AuthSucceeded, FetchPostersSettled Rejected] \<noteq> Some 0))"
  by (simp add: init_def)

text \<open>
  C10. The loading flag starts out true, and at that point no request for the collection
  has been made.
\<close>

theorem isLoading_initially_true:
  "isLoading init \<and> requests init = []"
  by (simp add: init_def)

end
